theory Spec2Isabelle
  imports Main "HOL-Library.AList"
begin

section \<open>The fake GitHub GraphQL backend of ghstack (github\_fake.py)\<close>

text \<open>
  A shallow embedding of \<^verbatim>\<open>src/ghstack/github_fake.py\<close>: the in-memory store
  \<^verbatim>\<open>GitHubState\<close>, the entity classes \<^verbatim>\<open>Repository\<close> and \<^verbatim>\<open>PullRequest\<close>, the
  resolver root \<^verbatim>\<open>Root\<close> and the facade \<^verbatim>\<open>FakeGitHubGraphQLEndpoint.graphql\<close>.

  Conventions of the embedding.
  \<^item> A Python \<^verbatim>\<open>dict\<close> that the code iterates over is an association list in insertion
    order: \<^verbatim>\<open>d[k]\<close> is \<open>map_of d k\<close>, \<^verbatim>\<open>d[k] = v\<close> is \<open>AList.update k v d\<close> (an
    existing key keeps its position, a new key goes to the end), \<^verbatim>\<open>d.values()\<close> is
    \<open>map snd d\<close>. A dictionary that is only indexed is a map.
  \<^item> Every resolver takes the store and returns its result together with the store it
    leaves behind; a raised exception is \<open>Inl\<close> of an \<open>error\<close>, and the store beside it
    is the store at the moment of the \<^verbatim>\<open>raise\<close>.
  \<^item> Python's \<^verbatim>\<open>int\<close> is \<open>int\<close>, \<^verbatim>\<open>str\<close> is \<open>string\<close>.
\<close>

subsection \<open>Python's \<^verbatim>\<open>str\<close> on integers\<close>

definition digit_char :: "nat \<Rightarrow> char" where
  "digit_char d = ''0123456789'' ! d"

function str_nat :: "nat \<Rightarrow> string" where
  "str_nat n = (if n < 10 then [digit_char n] else str_nat (n div 10) @ [digit_char (n mod 10)])"
  by pat_completeness auto
termination
  by (relation "measure (\<lambda>n. n)") auto

declare str_nat.simps [simp del]

definition str_int :: "int \<Rightarrow> string" where
  "str_int i = (if i < 0 then CHR ''-'' # str_nat (nat (- i)) else str_nat (nat i))"

subsection \<open>Data model\<close>

type_synonym GraphQLId = string
type_synonym GitHubNumber = int

datatype error = KeyError string | RuntimeError string

text \<open>
  The two input dictionaries. A key the code tests with \<^verbatim>\<open>in\<close> or reads with
  \<^verbatim>\<open>.get\<close> may be absent (\<open>None\<close>), present and \<^verbatim>\<open>None\<close> (\<open>Some None\<close>) or present
  with a string (\<open>Some (Some v)\<close>); a key the code indexes directly is a required string,
  as its \<^verbatim>\<open>TypedDict\<close> declares.
\<close>

record UpdatePullRequestInput =
  upd_baseRefName :: "string option option"
  upd_title :: "string option option"
  upd_body :: "string option option"
  upd_clientMutationId :: "string option option"
  upd_pullRequestId :: GraphQLId

record CreatePullRequestInput =
  new_baseRefName :: string
  new_headRefName :: string
  new_title :: string
  new_body :: string
  new_clientMutationId :: "string option option"
  new_ownerId :: GraphQLId

text \<open>\<^verbatim>\<open>input.get(key)\<close>: \<^verbatim>\<open>None\<close> for an absent key, the stored value otherwise.\<close>

definition dict_get :: "'a option option \<Rightarrow> 'a option" where
  "dict_get field = (case field of None \<Rightarrow> None | Some v \<Rightarrow> v)"

text \<open>
  The dataclasses. \<^verbatim>\<open>Node.id\<close> is the field \<open>id'\<close>; the private fields
  \<^verbatim>\<open>_repository\<close>, \<^verbatim>\<open>_next_id\<close> and \<^verbatim>\<open>_next_pull_request_number\<close> carry the prefix
  \<open>priv\<close>. Equality of records is equality of all fields, which is what the generated
  \<^verbatim>\<open>__eq__\<close> of a dataclass compares.
\<close>

record Node =
  id' :: GraphQLId

record Repository = Node +
  name :: string
  nameWithOwner :: string

record PullRequest = Node +
  baseRefName :: string
  body :: string
  headRefName :: string
  number :: GitHubNumber
  priv_repository :: GraphQLId
  title :: string
  url :: string

record PullRequestConnection =
  nodes :: "PullRequest list"

record UpdatePullRequestPayload =
  updated_clientMutationId :: "string option"
  updated_pullRequest :: PullRequest

record CreatePullRequestPayload =
  created_clientMutationId :: "string option"
  created_pullRequest :: PullRequest

record GitHubState =
  repositories :: "(GraphQLId \<times> Repository) list"
  pull_requests :: "(GraphQLId \<times> PullRequest) list"
  priv_next_id :: int
  priv_next_pull_request_number :: "GraphQLId \<rightharpoonup> int"

type_synonym 'a result = "(error + 'a) \<times> GitHubState"

subsection \<open>The store: \<^verbatim>\<open>GitHubState\<close>\<close>

definition next_id :: "GitHubState \<Rightarrow> GraphQLId \<times> GitHubState" where
  "next_id s = (str_int (priv_next_id s), s\<lparr>priv_next_id := priv_next_id s + 1\<rparr>)"

definition next_pull_request_number :: "GitHubState \<Rightarrow> GraphQLId \<Rightarrow> GitHubNumber result" where
  "next_pull_request_number s repo_id =
     (case priv_next_pull_request_number s repo_id of
        None \<Rightarrow> (Inl (KeyError repo_id), s)
      | Some r \<Rightarrow>
          (Inr r, s\<lparr>priv_next_pull_request_number :=
                      (priv_next_pull_request_number s)(repo_id \<mapsto> r + 1)\<rparr>))"

definition GitHubState_init :: GitHubState where
  "GitHubState_init =
     \<lparr>repositories =
        AList.update ''1000''
          \<lparr>id' = ''1000'', name = ''pytorch'', nameWithOwner = ''pytorch/pytorch''\<rparr> [],
      pull_requests = [],
      priv_next_id = 5000,
      priv_next_pull_request_number = Map.empty(''1000'' \<mapsto> 500)\<rparr>"

subsection \<open>The entities\<close>

definition PullRequest_repository :: "GitHubState \<Rightarrow> PullRequest \<Rightarrow> error + Repository" where
  "PullRequest_repository s pr =
     (case map_of (repositories s) (priv_repository pr) of
        None \<Rightarrow> Inl (KeyError (priv_repository pr))
      | Some r \<Rightarrow> Inr r)"

text \<open>The \<^verbatim>\<open>for\<close> loop of \<^verbatim>\<open>Repository.pullRequest\<close> over the remaining values.\<close>

fun pullRequest_loop ::
  "GitHubState \<Rightarrow> Repository \<Rightarrow> GitHubNumber \<Rightarrow> PullRequest list \<Rightarrow> error + PullRequest" where
  "pullRequest_loop s self n [] =
     Inl (RuntimeError (''unrecognized pull request #'' @ str_int n
                          @ '' in repository '' @ nameWithOwner self))"
| "pullRequest_loop s self n (pr # prs) =
     (case PullRequest_repository s pr of
        Inl e \<Rightarrow> Inl e
      | Inr r \<Rightarrow> if self = r \<and> number pr = n then Inr pr else pullRequest_loop s self n prs)"

definition Repository_pullRequest ::
  "GitHubState \<Rightarrow> Repository \<Rightarrow> GitHubNumber \<Rightarrow> error + PullRequest" where
  "Repository_pullRequest s self n = pullRequest_loop s self n (map snd (pull_requests s))"

text \<open>
  \<^verbatim>\<open>list(filter(lambda pr: self == pr.repository(info), ...))\<close>: the predicate is
  evaluated on every value in order, and the first lookup that raises ends the call.
\<close>

fun filter_repository ::
  "GitHubState \<Rightarrow> Repository \<Rightarrow> PullRequest list \<Rightarrow> error + PullRequest list" where
  "filter_repository s self [] = Inr []"
| "filter_repository s self (pr # prs) =
     (case PullRequest_repository s pr of
        Inl e \<Rightarrow> Inl e
      | Inr r \<Rightarrow>
          (case filter_repository s self prs of
             Inl e \<Rightarrow> Inl e
           | Inr rest \<Rightarrow> Inr (if self = r then pr # rest else rest)))"

definition Repository_pullRequests ::
  "GitHubState \<Rightarrow> Repository \<Rightarrow> error + PullRequestConnection" where
  "Repository_pullRequests s self =
     (case filter_repository s self (map snd (pull_requests s)) of
        Inl e \<Rightarrow> Inl e
      | Inr prs \<Rightarrow> Inr \<lparr>nodes = prs\<rparr>)"

subsection \<open>The resolver root\<close>

datatype node = RepositoryNode Repository | PullRequestNode PullRequest

definition Root_repository :: "GitHubState \<Rightarrow> string \<Rightarrow> string \<Rightarrow> error + Repository" where
  "Root_repository s owner nm =
     (let nwo = owner @ ''/'' @ nm in
      case find (\<lambda>r. nameWithOwner r = nwo) (map snd (repositories s)) of
        Some r \<Rightarrow> Inr r
      | None \<Rightarrow> Inl (RuntimeError (''unknown repository '' @ nwo)))"

definition Root_node :: "GitHubState \<Rightarrow> GraphQLId \<Rightarrow> error + node" where
  "Root_node s i =
     (case map_of (repositories s) i of
        Some r \<Rightarrow> Inr (RepositoryNode r)
      | None \<Rightarrow>
          (case map_of (pull_requests s) i of
             Some pr \<Rightarrow> Inr (PullRequestNode pr)
           | None \<Rightarrow> Inl (RuntimeError (''unknown id '' @ i))))"

text \<open>
  \<^verbatim>\<open>updatePullRequest\<close> assigns to the attributes of the object stored under
  \<^verbatim>\<open>input['pullRequestId']\<close>; the store holds each pull request under one key, so the
  assignment is an update of that entry.
\<close>

definition Root_updatePullRequest ::
  "GitHubState \<Rightarrow> UpdatePullRequestInput \<Rightarrow> UpdatePullRequestPayload result" where
  "Root_updatePullRequest s input =
     (case map_of (pull_requests s) (upd_pullRequestId input) of
        None \<Rightarrow> (Inl (KeyError (upd_pullRequestId input)), s)
      | Some pr0 \<Rightarrow>
          (let pr1 = (case upd_title input of
                        Some (Some v) \<Rightarrow> pr0\<lparr>title := v\<rparr> | _ \<Rightarrow> pr0);
               pr2 = (case upd_baseRefName input of
                        Some (Some v) \<Rightarrow> pr1\<lparr>baseRefName := v\<rparr> | _ \<Rightarrow> pr1);
               pr3 = (case upd_body input of
                        Some (Some v) \<Rightarrow> pr2\<lparr>body := v\<rparr> | _ \<Rightarrow> pr2)
           in (Inr \<lparr>updated_clientMutationId = dict_get (upd_clientMutationId input),
                    updated_pullRequest = pr3\<rparr>,
               s\<lparr>pull_requests := AList.update (upd_pullRequestId input) pr3 (pull_requests s)\<rparr>)))"

definition Root_createPullRequest ::
  "GitHubState \<Rightarrow> CreatePullRequestInput \<Rightarrow> CreatePullRequestPayload result" where
  "Root_createPullRequest s input =
     (let (i, s1) = next_id s in
      case map_of (repositories s1) (new_ownerId input) of
        None \<Rightarrow> (Inl (KeyError (new_ownerId input)), s1)
      | Some repo \<Rightarrow>
          (case next_pull_request_number s1 (new_ownerId input) of
             (Inl e, s2) \<Rightarrow> (Inl e, s2)
           | (Inr n, s2) \<Rightarrow>
               (let pr = \<lparr>id' = i,
                          baseRefName = new_baseRefName input,
                          body = new_body input,
                          headRefName = new_headRefName input,
                          number = n,
                          priv_repository = new_ownerId input,
                          title = new_title input,
                          url = ''https://github.com/'' @ nameWithOwner repo
                                  @ ''/pull/'' @ str_int n\<rparr>
                in (Inr \<lparr>created_clientMutationId = dict_get (new_clientMutationId input),
                         created_pullRequest = pr\<rparr>,
                    s2\<lparr>pull_requests := AList.update i pr (pull_requests s2)\<rparr>))))"

subsection \<open>The facade: \<^verbatim>\<open>FakeGitHubGraphQLEndpoint.graphql\<close>\<close>

text \<open>
  \<^verbatim>\<open>graphql.graphql_sync\<close> belongs to the library graphql-core and the schema file is
  not part of the sources, so the engine is a parameter of the facade: a function from
  the store, the query and the variables to an \<^verbatim>\<open>ExecutionResult\<close> and the store it
  leaves. \<^verbatim>\<open>str(e)\<close> on the engine's errors is the parameter \<open>str_error\<close>.
\<close>

record ('d, 'e) ExecutionResult =
  data :: "'d option"
  errors :: "'e list option"

text \<open>\<^verbatim>\<open>sep.join(xs)\<close>\<close>

fun str_join :: "string \<Rightarrow> string list \<Rightarrow> string" where
  "str_join sep [] = []"
| "str_join sep [x] = x"
| "str_join sep (x # y # ys) = x @ sep @ str_join sep (y # ys)"

definition newline :: string where
  "newline = [CHR 0x0A]"

text \<open>The part of \<^verbatim>\<open>graphql\<close> after the engine has returned \<open>r\<close>.\<close>

definition graphql_response ::
  "('e \<Rightarrow> string) \<Rightarrow> ('d, 'e) ExecutionResult \<Rightarrow> error + (string \<times> 'd option) list" where
  "graphql_response str_error r =
     (case errors r of
        Some (e # es) \<Rightarrow>
          Inl (RuntimeError (''GraphQL query failed with errors:'' @ newline @ newline
                 @ str_join newline (map str_error (e # es))))
      | _ \<Rightarrow> Inr [(''data'', data r)])"

definition graphql ::
  "(GitHubState \<Rightarrow> string \<Rightarrow> 'v \<Rightarrow> ('d, 'e) ExecutionResult \<times> GitHubState) \<Rightarrow> ('e \<Rightarrow> string)
     \<Rightarrow> GitHubState \<Rightarrow> string \<Rightarrow> 'v \<Rightarrow> (string \<times> 'd option) list result" where
  "graphql graphql_sync str_error context query kwargs =
     (let (r, context') = graphql_sync context query kwargs
      in (graphql_response str_error r, context'))"

subsection \<open>Sequences of calls\<close>

text \<open>
  One call of a resolver, as the engine makes it while it executes a query or a mutation,
  and the value it hands back. The query resolvers never assign to the store.
\<close>

datatype request =
    Query_repository string string
  | Query_node GraphQLId
  | Query_pullRequest Repository GitHubNumber
  | Query_pullRequests Repository
  | Query_pullRequest_repository PullRequest
  | Mutation_updatePullRequest UpdatePullRequestInput
  | Mutation_createPullRequest CreatePullRequestInput

datatype response =
    Repository_response "error + Repository"
  | Node_response "error + node"
  | PullRequest_response "error + PullRequest"
  | Connection_response "error + PullRequestConnection"
  | Update_response "error + UpdatePullRequestPayload"
  | Create_response "error + CreatePullRequestPayload"

fun resolve :: "GitHubState \<Rightarrow> request \<Rightarrow> response \<times> GitHubState" where
  "resolve s (Query_repository owner nm) = (Repository_response (Root_repository s owner nm), s)"
| "resolve s (Query_node i) = (Node_response (Root_node s i), s)"
| "resolve s (Query_pullRequest self n) = (PullRequest_response (Repository_pullRequest s self n), s)"
| "resolve s (Query_pullRequests self) = (Connection_response (Repository_pullRequests s self), s)"
| "resolve s (Query_pullRequest_repository pr) = (Repository_response (PullRequest_repository s pr), s)"
| "resolve s (Mutation_updatePullRequest input) =
     (case Root_updatePullRequest s input of (r, s') \<Rightarrow> (Update_response r, s'))"
| "resolve s (Mutation_createPullRequest input) =
     (case Root_createPullRequest s input of (r, s') \<Rightarrow> (Create_response r, s'))"

fun resolve_all :: "GitHubState \<Rightarrow> request list \<Rightarrow> response list \<times> GitHubState" where
  "resolve_all s [] = ([], s)"
| "resolve_all s (q # qs) =
     (case resolve s q of (r, s') \<Rightarrow>
        (case resolve_all s' qs of (rs, s'') \<Rightarrow> (r # rs, s'')))"

text \<open>The store after a sequence of calls on the seeded store.\<close>

definition reached :: "request list \<Rightarrow> GitHubState" where
  "reached qs = snd (resolve_all GitHubState_init qs)"

subsection \<open>Observations on a sequence of calls\<close>

text \<open>
  The identifiers that \<^verbatim>\<open>next_id\<close> hands out during a sequence of calls, in order.
  \<^verbatim>\<open>createPullRequest\<close> is the only caller of \<^verbatim>\<open>next_id\<close>; it calls it once, as its first
  statement, whether or not the rest of the call succeeds.
\<close>

fun allocated :: "GitHubState \<Rightarrow> request list \<Rightarrow> GraphQLId list" where
  "allocated s [] = []"
| "allocated s (Mutation_createPullRequest input # qs) =
     fst (next_id s) # allocated (snd (resolve s (Mutation_createPullRequest input))) qs"
| "allocated s (q # qs) = allocated (snd (resolve s q)) qs"

text \<open>
  The \<^verbatim>\<open>number\<close>s of the pull requests that the successful \<^verbatim>\<open>createPullRequest\<close> calls
  of a sequence returned for the repository \<open>rid\<close>, in order.
\<close>

fun created_numbers :: "GraphQLId \<Rightarrow> response list \<Rightarrow> GitHubNumber list" where
  "created_numbers rid [] = []"
| "created_numbers rid (Create_response (Inr p) # rs) =
     (if priv_repository (created_pullRequest p) = rid
      then number (created_pullRequest p) # created_numbers rid rs
      else created_numbers rid rs)"
| "created_numbers rid (r # rs) = created_numbers rid rs"

text \<open>The repository that \<^verbatim>\<open>GitHubState.__init__\<close> stores.\<close>

definition seed_repository :: Repository where
  "seed_repository = \<lparr>id' = ''1000'', name = ''pytorch'', nameWithOwner = ''pytorch/pytorch''\<rparr>"

text \<open>
  What the proofs below maintain along every sequence of calls on the seeded store: the
  repositories are the seeded ones, the keys of the pull requests are distinct, and every
  pull request is stored under its own identifier, refers to the seeded repository and
  carries an identifier handed out by \<^verbatim>\<open>next_id\<close>.
\<close>

definition store_inv :: "GitHubState \<Rightarrow> bool" where
  "store_inv s \<longleftrightarrow>
     repositories s = repositories GitHubState_init \<and>
     5000 \<le> priv_next_id s \<and>
     distinct (map fst (pull_requests s)) \<and>
     (\<forall>(k, pr) \<in> set (pull_requests s).
        id' pr = k \<and> priv_repository pr = ''1000'' \<and> k \<in> str_int ` {5000..<priv_next_id s})"

subsection \<open>Example inputs\<close>

text \<open>The inputs of the scenarios of the specification, used to run the model.\<close>

definition example_create :: CreatePullRequestInput where
  "example_create = \<lparr>new_baseRefName = ''main'', new_headRefName = ''feature'', new_title = ''T'',
        new_body = ''B'', new_clientMutationId = None, new_ownerId = ''1000''\<rparr>"

definition example_update :: UpdatePullRequestInput where
  "example_update = \<lparr>upd_baseRefName = None, upd_title = Some (Some ''T2''), upd_body = Some None,
     upd_clientMutationId = None, upd_pullRequestId = ''5000''\<rparr>"

definition example_update_none :: UpdatePullRequestInput where
  "example_update_none = \<lparr>upd_baseRefName = None, upd_title = None, upd_body = Some None,
     upd_clientMutationId = Some (Some ''m''), upd_pullRequestId = ''5000''\<rparr>"

definition example_create_unknown :: CreatePullRequestInput where
  "example_create_unknown = \<lparr>new_baseRefName = ''main'', new_headRefName = ''other'', new_title = ''U'',
        new_body = ''V'', new_clientMutationId = Some None, new_ownerId = ''2000''\<rparr>"

definition example_calls :: "request list" where
  "example_calls = [Mutation_createPullRequest example_create,
                    Mutation_createPullRequest example_create_unknown,
                    Mutation_updatePullRequest example_update,
                    Query_node ''5000'',
                    Mutation_createPullRequest example_create]"



section \<open>Properties\<close>

subsection \<open>Decimal rendering is injective\<close>

lemma digit_char_inj:
  assumes "d < 10" "e < 10" "digit_char d = digit_char e"
  shows "d = e"
proof -
  have "distinct ''0123456789''" by simp
  moreover have "d < length ''0123456789''" "e < length ''0123456789''"
    using assms by simp_all
  ultimately show ?thesis
    using assms(3) unfolding digit_char_def by (simp only: nth_eq_iff_index_eq)
qed

lemma digit_char_not_minus: "d < 10 \<Longrightarrow> digit_char d \<noteq> CHR ''-''"
proof -
  assume "d < 10"
  then have "digit_char d \<in> set ''0123456789''"
    unfolding digit_char_def by (intro nth_mem) simp
  then show ?thesis by auto
qed

lemma str_nat_nonempty: "str_nat n \<noteq> []"
  by (subst str_nat.simps) simp

lemma str_nat_no_minus: "CHR ''-'' \<notin> set (str_nat n)"
proof (induction n rule: str_nat.induct)
  case (1 n)
  show ?case
  proof (cases "n < 10")
    case True
    then show ?thesis
      using digit_char_not_minus [of n] by (subst str_nat.simps) auto
  next
    case False
    have "n mod 10 < 10" by simp
    then have "digit_char (n mod 10) \<noteq> CHR ''-''" by (rule digit_char_not_minus)
    with False "1.IH" show ?thesis
      by (subst str_nat.simps) auto
  qed
qed

lemma str_nat_inj: "str_nat n = str_nat m \<Longrightarrow> n = m"
proof (induction n arbitrary: m rule: str_nat.induct)
  case (1 n)
  show ?case
  proof (cases "n < 10")
    case n_small: True
    show ?thesis
    proof (cases "m < 10")
      case True
      with n_small "1.prems" have "digit_char n = digit_char m"
        by (simp add: str_nat.simps)
      with n_small True show ?thesis by (rule digit_char_inj)
    next
      case False
      then have "str_nat m = str_nat (m div 10) @ [digit_char (m mod 10)]"
        by (subst str_nat.simps) simp
      moreover have "str_nat n = [digit_char n]"
        using n_small by (subst str_nat.simps) simp
      ultimately have "str_nat (m div 10) = []"
        using "1.prems" by simp
      then show ?thesis by (simp add: str_nat_nonempty)
    qed
  next
    case n_big: False
    then have n_eq: "str_nat n = str_nat (n div 10) @ [digit_char (n mod 10)]"
      by (subst str_nat.simps) simp
    show ?thesis
    proof (cases "m < 10")
      case True
      then have "str_nat m = [digit_char m]"
        by (subst str_nat.simps) simp
      with n_eq "1.prems" have "str_nat (n div 10) = []" by simp
      then show ?thesis by (simp add: str_nat_nonempty)
    next
      case False
      then have "str_nat m = str_nat (m div 10) @ [digit_char (m mod 10)]"
        by (subst str_nat.simps) simp
      with n_eq "1.prems" have lead_eq: "str_nat (n div 10) = str_nat (m div 10)"
        and last_eq: "digit_char (n mod 10) = digit_char (m mod 10)"
        by simp_all
      from lead_eq have "n div 10 = m div 10"
        using n_big by (rule "1.IH" [rotated])
      moreover have "n mod 10 = m mod 10"
        using last_eq by (intro digit_char_inj) simp_all
      ultimately show ?thesis
        by (metis div_mult_mod_eq)
    qed
  qed
qed

lemma str_int_inj: "str_int i = str_int j \<Longrightarrow> i = j"
proof -
  assume eq: "str_int i = str_int j"
  have no_minus: "hd (str_nat n) \<noteq> CHR ''-''" for n
    using str_nat_no_minus [of n] str_nat_nonempty [of n] by (cases "str_nat n") auto
  consider "i < 0" "j < 0" | "i < 0" "0 \<le> j" | "0 \<le> i" "j < 0" | "0 \<le> i" "0 \<le> j"
    by linarith
  then show ?thesis
  proof cases
    case 1
    with eq have "str_nat (nat (- i)) = str_nat (nat (- j))" by (simp add: str_int_def)
    then have "nat (- i) = nat (- j)" by (rule str_nat_inj)
    with 1 show ?thesis by simp
  next
    case 2
    with eq have "CHR ''-'' # str_nat (nat (- i)) = str_nat (nat j)" by (simp add: str_int_def)
    then have "hd (str_nat (nat j)) = CHR ''-''" by (metis list.sel(1))
    with no_minus show ?thesis by blast
  next
    case 3
    with eq have "str_nat (nat i) = CHR ''-'' # str_nat (nat (- j))" by (simp add: str_int_def)
    then have "hd (str_nat (nat i)) = CHR ''-''" by (metis list.sel(1))
    with no_minus show ?thesis by blast
  next
    case 4
    with eq have "str_nat (nat i) = str_nat (nat j)" by (simp add: str_int_def)
    then have "nat i = nat j" by (rule str_nat_inj)
    with 4 show ?thesis by simp
  qed
qed

lemma str_int_1000: "str_int 1000 = ''1000''"
  by (simp add: str_int_def str_nat.simps digit_char_def)

subsection \<open>Association lists as dictionaries\<close>

lemma update_fresh: "k \<notin> fst ` set al \<Longrightarrow> AList.update k v al = al @ [(k, v)]"
  by (induction al) auto

lemma set_update_subset: "set (AList.update k v al) \<subseteq> insert (k, v) (set al)"
  by (induction al) auto

subsection \<open>The two mutations, case by case\<close>

lemma repositories_init:
  "repositories GitHubState_init =
     [(''1000'', \<lparr>id' = ''1000'', name = ''pytorch'', nameWithOwner = ''pytorch/pytorch''\<rparr>)]"
  by (simp add: GitHubState_init_def)

lemma updatePullRequest_None:
  "map_of (pull_requests s) (upd_pullRequestId input) = None \<Longrightarrow>
   Root_updatePullRequest s input = (Inl (KeyError (upd_pullRequestId input)), s)"
  by (simp add: Root_updatePullRequest_def)

lemma updatePullRequest_Some:
  assumes "map_of (pull_requests s) (upd_pullRequestId input) = Some pr0"
  shows "\<exists>pr'. id' pr' = id' pr0 \<and> priv_repository pr' = priv_repository pr0 \<and>
      number pr' = number pr0 \<and>
      Root_updatePullRequest s input
        = (Inr \<lparr>updated_clientMutationId = dict_get (upd_clientMutationId input),
                updated_pullRequest = pr'\<rparr>,
           s\<lparr>pull_requests := AList.update (upd_pullRequestId input) pr' (pull_requests s)\<rparr>)"
proof -
  define pr1 where "pr1 = (case upd_title input of Some (Some v) \<Rightarrow> pr0\<lparr>title := v\<rparr> | _ \<Rightarrow> pr0)"
  define pr2 where
    "pr2 = (case upd_baseRefName input of Some (Some v) \<Rightarrow> pr1\<lparr>baseRefName := v\<rparr> | _ \<Rightarrow> pr1)"
  define pr3 where "pr3 = (case upd_body input of Some (Some v) \<Rightarrow> pr2\<lparr>body := v\<rparr> | _ \<Rightarrow> pr2)"
  have "Root_updatePullRequest s input =
       (Inr \<lparr>updated_clientMutationId = dict_get (upd_clientMutationId input),
             updated_pullRequest = pr3\<rparr>,
        s\<lparr>pull_requests := AList.update (upd_pullRequestId input) pr3 (pull_requests s)\<rparr>)"
    using assms unfolding pr1_def pr2_def pr3_def
    by (simp add: Root_updatePullRequest_def Let_def)
  moreover have "id' pr3 = id' pr0" "priv_repository pr3 = priv_repository pr0"
    "number pr3 = number pr0"
    by (simp_all add: pr1_def pr2_def pr3_def split: option.splits)
  ultimately show ?thesis by blast
qed

lemma createPullRequest_cases:
  "(\<exists>e. Root_createPullRequest s input = (Inl e, s\<lparr>priv_next_id := priv_next_id s + 1\<rparr>)) \<or>
   (\<exists>repo n.
      map_of (repositories s) (new_ownerId input) = Some repo \<and>
      priv_next_pull_request_number s (new_ownerId input) = Some n \<and>
      Root_createPullRequest s input =
        (Inr \<lparr>created_clientMutationId = dict_get (new_clientMutationId input),
              created_pullRequest =
                \<lparr>id' = str_int (priv_next_id s),
                 baseRefName = new_baseRefName input,
                 body = new_body input,
                 headRefName = new_headRefName input,
                 number = n,
                 priv_repository = new_ownerId input,
                 title = new_title input,
                 url = ''https://github.com/'' @ nameWithOwner repo @ ''/pull/'' @ str_int n\<rparr>\<rparr>,
         s\<lparr>priv_next_id := priv_next_id s + 1,
           priv_next_pull_request_number :=
             (priv_next_pull_request_number s)(new_ownerId input \<mapsto> n + 1),
           pull_requests :=
             AList.update (str_int (priv_next_id s))
                \<lparr>id' = str_int (priv_next_id s),
                 baseRefName = new_baseRefName input,
                 body = new_body input,
                 headRefName = new_headRefName input,
                 number = n,
                 priv_repository = new_ownerId input,
                 title = new_title input,
                 url = ''https://github.com/'' @ nameWithOwner repo @ ''/pull/'' @ str_int n\<rparr>
                (pull_requests s)\<rparr>))"
  by (auto simp add: Root_createPullRequest_def next_id_def next_pull_request_number_def Let_def
      split: option.splits)

subsection \<open>The invariant of the seeded store\<close>

lemma store_inv_init: "store_inv GitHubState_init"
  by (simp add: store_inv_def) (simp add: GitHubState_init_def)

lemma store_inv_update:
  assumes "store_inv s"
  shows "store_inv (snd (Root_updatePullRequest s input))"
proof (cases "map_of (pull_requests s) (upd_pullRequestId input)")
  case None
  with assms show ?thesis by (simp add: updatePullRequest_None)
next
  case (Some pr0)
  from updatePullRequest_Some [OF Some] obtain pr' where
    pr': "id' pr' = id' pr0" "priv_repository pr' = priv_repository pr0"
    and s': "snd (Root_updatePullRequest s input)
        = s\<lparr>pull_requests := AList.update (upd_pullRequestId input) pr' (pull_requests s)\<rparr>"
    by force
  from Some have mem: "(upd_pullRequestId input, pr0) \<in> set (pull_requests s)"
    by (rule map_of_SomeD)
  have "id' v = k \<and> priv_repository v = ''1000'' \<and> k \<in> str_int ` {5000..<priv_next_id s}"
    if "(k, v) \<in> set (AList.update (upd_pullRequestId input) pr' (pull_requests s))" for k v
  proof -
    from that set_update_subset
    have "(k, v) = (upd_pullRequestId input, pr') \<or> (k, v) \<in> set (pull_requests s)"
      by fastforce
    then show ?thesis
      using assms mem pr' unfolding store_inv_def by auto
  qed
  with assms show ?thesis
    unfolding s' store_inv_def by (auto simp add: AList.distinct_update)
qed

lemma store_inv_create:
  assumes "store_inv s"
  shows "store_inv (snd (Root_createPullRequest s input))"
proof -
  have mono: "str_int ` {5000..<priv_next_id s} \<subseteq> str_int ` {5000..<priv_next_id s + 1}"
    by auto
  from createPullRequest_cases [of s input] show ?thesis
  proof (elim disjE exE conjE)
    fix e
    assume "Root_createPullRequest s input = (Inl e, s\<lparr>priv_next_id := priv_next_id s + 1\<rparr>)"
    with assms mono show ?thesis
      unfolding store_inv_def by fastforce
  next
    fix repo :: Repository and n
    let ?i = "str_int (priv_next_id s)"
    let ?pr = "\<lparr>id' = ?i,
                 baseRefName = new_baseRefName input,
                 body = new_body input,
                 headRefName = new_headRefName input,
                 number = n,
                 priv_repository = new_ownerId input,
                 title = new_title input,
                 url = ''https://github.com/'' @ nameWithOwner repo @ ''/pull/'' @ str_int n\<rparr>"
    assume repo: "map_of (repositories s) (new_ownerId input) = Some repo"
      and run: "Root_createPullRequest s input =
        (Inr \<lparr>created_clientMutationId = dict_get (new_clientMutationId input),
              created_pullRequest = ?pr\<rparr>,
         s\<lparr>priv_next_id := priv_next_id s + 1,
           priv_next_pull_request_number :=
             (priv_next_pull_request_number s)(new_ownerId input \<mapsto> n + 1),
           pull_requests := AList.update ?i ?pr (pull_requests s)\<rparr>)"
    from repo assms have owner: "new_ownerId input = ''1000''"
      unfolding store_inv_def by (simp add: repositories_init split: if_splits)
    have "id' v = k \<and> priv_repository v = ''1000'' \<and> k \<in> str_int ` {5000..<priv_next_id s + 1}"
      if "(k, v) \<in> set (AList.update ?i ?pr (pull_requests s))" for k v
    proof -
      from that set_update_subset
      have "(k, v) = (?i, ?pr) \<or> (k, v) \<in> set (pull_requests s)"
        by fastforce
      then show ?thesis
      proof
        assume "(k, v) = (?i, ?pr)"
        moreover have "priv_next_id s \<in> {5000..<priv_next_id s + 1}"
          using assms unfolding store_inv_def by simp
        ultimately show ?thesis using owner by auto
      next
        assume "(k, v) \<in> set (pull_requests s)"
        with assms mono show ?thesis unfolding store_inv_def by fastforce
      qed
    qed
    with assms show ?thesis
      unfolding run store_inv_def by (auto simp add: AList.distinct_update)
  qed
qed

lemma resolve_query_state:
  "snd (resolve s (Query_repository owner nm)) = s"
  "snd (resolve s (Query_node i)) = s"
  "snd (resolve s (Query_pullRequest self n)) = s"
  "snd (resolve s (Query_pullRequests self)) = s"
  "snd (resolve s (Query_pullRequest_repository pr)) = s"
  "snd (resolve s (Mutation_updatePullRequest ui)) = snd (Root_updatePullRequest s ui)"
  "snd (resolve s (Mutation_createPullRequest ci)) = snd (Root_createPullRequest s ci)"
  by (simp_all split: prod.splits)

lemma store_inv_resolve: "store_inv s \<Longrightarrow> store_inv (snd (resolve s q))"
  by (cases q) (simp_all only: resolve_query_state store_inv_update store_inv_create)

lemma resolve_all_snd_Cons:
  "snd (resolve_all s (q # qs)) = snd (resolve_all (snd (resolve s q)) qs)"
  by (simp split: prod.splits)

lemma store_inv_resolve_all: "store_inv s \<Longrightarrow> store_inv (snd (resolve_all s qs))"
proof (induction qs arbitrary: s)
  case Nil
  then show ?case by simp
next
  case (Cons q qs)
  from Cons.prems have "store_inv (snd (resolve s q))" by (rule store_inv_resolve)
  then have "store_inv (snd (resolve_all (snd (resolve s q)) qs))" by (rule Cons.IH)
  then show ?case by (simp only: resolve_all_snd_Cons)
qed

lemma store_inv_reached: "store_inv (reached qs)"
  unfolding reached_def using store_inv_init by (rule store_inv_resolve_all)

lemma resolve_next_id:
  "priv_next_id (snd (resolve s q)) =
     (case q of Mutation_createPullRequest input \<Rightarrow> priv_next_id s + 1 | _ \<Rightarrow> priv_next_id s)"
proof (cases q)
  case (Mutation_updatePullRequest ui)
  show ?thesis
  proof (cases "map_of (pull_requests s) (upd_pullRequestId ui)")
    case None
    then show ?thesis
      by (simp add: Mutation_updatePullRequest resolve_query_state updatePullRequest_None)
  next
    case (Some pr0)
    from updatePullRequest_Some [OF Some] show ?thesis
      by (auto simp add: Mutation_updatePullRequest resolve_query_state)
  qed
next
  case (Mutation_createPullRequest ci)
  from createPullRequest_cases [of s ci] show ?thesis
    by (auto simp add: Mutation_createPullRequest resolve_query_state)
qed (simp_all add: resolve_query_state)

lemma resolve_all_next_id_mono: "priv_next_id s \<le> priv_next_id (snd (resolve_all s qs))"
proof (induction qs arbitrary: s)
  case Nil
  show ?case by simp
next
  case (Cons q qs)
  have "priv_next_id s \<le> priv_next_id (snd (resolve s q))"
    by (subst resolve_next_id) (simp split: request.splits)
  also have "\<dots> \<le> priv_next_id (snd (resolve_all (snd (resolve s q)) qs))"
    by (rule Cons.IH)
  finally show ?case by (simp only: resolve_all_snd_Cons)
qed

lemma allocated_range:
  "distinct (allocated s qs) \<and>
   set (allocated s qs) = str_int ` {priv_next_id s..<priv_next_id (snd (resolve_all s qs))}"
proof (induction qs arbitrary: s)
  case Nil
  show ?case by simp
next
  case (Cons q qs)
  let ?s' = "snd (resolve s q)"
  let ?t = "snd (resolve_all ?s' qs)"
  note IH = Cons.IH [of ?s']
  have fin: "snd (resolve_all s (q # qs)) = ?t" by (simp only: resolve_all_snd_Cons)
  show ?case
  proof (cases "\<exists>ci. q = Mutation_createPullRequest ci")
    case True
    then obtain ci where q: "q = Mutation_createPullRequest ci" by blast
    have step: "priv_next_id ?s' = priv_next_id s + 1"
      by (subst resolve_next_id) (simp add: q)
    have le: "priv_next_id ?s' \<le> priv_next_id ?t" by (rule resolve_all_next_id_mono)
    have alloc: "allocated s (q # qs) = str_int (priv_next_id s) # allocated ?s' qs"
      by (simp add: q next_id_def)
    have fresh: "str_int (priv_next_id s) \<notin> str_int ` {priv_next_id s + 1..<priv_next_id ?t}"
      by (auto dest: str_int_inj)
    have "{priv_next_id s..<priv_next_id ?t}
            = insert (priv_next_id s) {priv_next_id s + 1..<priv_next_id ?t}"
      using le step by auto
    with IH fresh show ?thesis
      unfolding fin alloc step by simp
  next
    case False
    then have "allocated s (q # qs) = allocated ?s' qs" by (cases q) simp_all
    moreover from False have "priv_next_id ?s' = priv_next_id s"
      by (subst resolve_next_id) (simp split: request.splits)
    ultimately show ?thesis using IH unfolding fin by simp
  qed
qed

subsection \<open>The number allocator\<close>

text \<open>
  C9. \<^verbatim>\<open>next_pull_request_number\<close> on a repository identifier without a counter raises
  (the \<^verbatim>\<open>KeyError\<close> of the dictionary read, no default value) and leaves the store,
  hence every counter, as it was; on an identifier with a counter it returns the current
  value of that counter and stores the value plus one under that identifier, every other
  counter and the rest of the store unchanged.
\<close>

theorem next_pull_request_number_spec:
  "(priv_next_pull_request_number s repo_id = None \<longrightarrow>
      next_pull_request_number s repo_id = (Inl (KeyError repo_id), s)) \<and>
   (\<forall>r. priv_next_pull_request_number s repo_id = Some r \<longrightarrow>
      next_pull_request_number s repo_id =
        (Inr r, s\<lparr>priv_next_pull_request_number :=
                    (priv_next_pull_request_number s)(repo_id \<mapsto> r + 1)\<rparr>))"
  by (simp add: next_pull_request_number_def)

theorem next_pull_request_number_spec_witness:
  "priv_next_pull_request_number GitHubState_init ''2000'' = None \<and>
   next_pull_request_number GitHubState_init ''2000'' = (Inl (KeyError ''2000''), GitHubState_init) \<and>
   priv_next_pull_request_number GitHubState_init ''1000'' = Some 500 \<and>
   fst (next_pull_request_number GitHubState_init ''1000'') = Inr 500 \<and>
   priv_next_pull_request_number (snd (next_pull_request_number GitHubState_init ''1000'')) ''1000''
     = Some 501"
  using next_pull_request_number_spec [of GitHubState_init "''2000''"]
        next_pull_request_number_spec [of GitHubState_init "''1000''"]
  by (simp add: GitHubState_init_def)


subsection \<open>Evaluating the seeded store\<close>

lemma reached_one:
  "reached [Mutation_createPullRequest example_create] =
    \<lparr>repositories = [(''1000'', \<lparr>id' = ''1000'', name = ''pytorch'', nameWithOwner = ''pytorch/pytorch''\<rparr>)],
     pull_requests = [(''5000'', \<lparr>id' = ''5000'', baseRefName = ''main'', body = ''B'',
             headRefName = ''feature'', number = 500,
             priv_repository = ''1000'', title = ''T'',
             url = ''https://github.com/pytorch/pytorch/pull/500''\<rparr>)],
     priv_next_id = 5001,
     priv_next_pull_request_number = Map.empty(''1000'' \<mapsto> 501)\<rparr>"
  by (simp add: reached_def example_create_def GitHubState_init_def Root_createPullRequest_def
      next_id_def next_pull_request_number_def str_int_def str_nat.simps digit_char_def dict_get_def Let_def)

lemmas eval_defs = reached_def example_create_def example_create_unknown_def example_update_def
      GitHubState_init_def Root_createPullRequest_def Root_updatePullRequest_def Root_node_def
      next_id_def next_pull_request_number_def str_int_def str_nat.simps digit_char_def dict_get_def Let_def

lemma resolve_all_example:
  "resolve_all GitHubState_init example_calls =
    ([Create_response (Inr \<lparr>created_clientMutationId = None, created_pullRequest =
        \<lparr>id' = ''5000'', baseRefName = ''main'', body = ''B'', headRefName = ''feature'',
         number = 500, priv_repository = ''1000'', title = ''T'',
         url = ''https://github.com/pytorch/pytorch/pull/500''\<rparr>\<rparr>),
      Create_response (Inl (KeyError ''2000'')),
      Update_response (Inr \<lparr>updated_clientMutationId = None, updated_pullRequest =
        \<lparr>id' = ''5000'', baseRefName = ''main'', body = ''B'', headRefName = ''feature'',
         number = 500, priv_repository = ''1000'', title = ''T2'',
         url = ''https://github.com/pytorch/pytorch/pull/500''\<rparr>\<rparr>),
      Node_response (Inr (PullRequestNode
        \<lparr>id' = ''5000'', baseRefName = ''main'', body = ''B'', headRefName = ''feature'',
         number = 500, priv_repository = ''1000'', title = ''T2'',
         url = ''https://github.com/pytorch/pytorch/pull/500''\<rparr>)),
      Create_response (Inr \<lparr>created_clientMutationId = None, created_pullRequest =
        \<lparr>id' = ''5002'', baseRefName = ''main'', body = ''B'', headRefName = ''feature'',
         number = 501, priv_repository = ''1000'', title = ''T'',
         url = ''https://github.com/pytorch/pytorch/pull/501''\<rparr>\<rparr>)],
     \<lparr>repositories = [(''1000'', seed_repository)],
      pull_requests =
        [(''5000'', \<lparr>id' = ''5000'', baseRefName = ''main'', body = ''B'', headRefName = ''feature'',
           number = 500, priv_repository = ''1000'', title = ''T2'',
           url = ''https://github.com/pytorch/pytorch/pull/500''\<rparr>),
         (''5002'', \<lparr>id' = ''5002'', baseRefName = ''main'', body = ''B'', headRefName = ''feature'',
           number = 501, priv_repository = ''1000'', title = ''T'',
           url = ''https://github.com/pytorch/pytorch/pull/501''\<rparr>)],
      priv_next_id = 5003,
      priv_next_pull_request_number = Map.empty(''1000'' \<mapsto> 502)\<rparr>)"
  by (simp add: example_calls_def eval_defs seed_repository_def)

lemma allocated_example:
  "allocated GitHubState_init example_calls = [''5000'', ''5001'', ''5002'']"
  by (simp add: example_calls_def eval_defs)

subsection \<open>Creation with an unknown owner\<close>

text \<open>
  C10. When \<^verbatim>\<open>input['ownerId']\<close> is not a key of \<^verbatim>\<open>repositories\<close>, \<^verbatim>\<open>createPullRequest\<close>
  raises the \<^verbatim>\<open>KeyError\<close> of that lookup. Nothing has been inserted and no number has been
  taken: the pull requests, the number counters and the repositories are those of the call's
  start. The identifier counter has been advanced by one, so the store is not the store of
  the call's start.
\<close>

theorem createPullRequest_unknown_owner:
  assumes "map_of (repositories s) (new_ownerId input) = None"
  shows "Root_createPullRequest s input =
           (Inl (KeyError (new_ownerId input)), s\<lparr>priv_next_id := priv_next_id s + 1\<rparr>)
         \<and> pull_requests (snd (Root_createPullRequest s input)) = pull_requests s
         \<and> priv_next_pull_request_number (snd (Root_createPullRequest s input))
             = priv_next_pull_request_number s
         \<and> repositories (snd (Root_createPullRequest s input)) = repositories s
         \<and> priv_next_id (snd (Root_createPullRequest s input)) = priv_next_id s + 1
         \<and> snd (Root_createPullRequest s input) \<noteq> s"
proof -
  have eq: "Root_createPullRequest s input =
           (Inl (KeyError (new_ownerId input)), s\<lparr>priv_next_id := priv_next_id s + 1\<rparr>)"
    using assms by (simp add: Root_createPullRequest_def next_id_def)
  have "priv_next_id (s\<lparr>priv_next_id := priv_next_id s + 1\<rparr>) \<noteq> priv_next_id s"
    by simp
  then have "s\<lparr>priv_next_id := priv_next_id s + 1\<rparr> \<noteq> s"
    by metis
  with eq show ?thesis by simp
qed

theorem createPullRequest_unknown_owner_witness:
  "map_of (repositories GitHubState_init) ''2000'' = None \<and>
   Root_createPullRequest GitHubState_init
       \<lparr>new_baseRefName = ''main'', new_headRefName = ''feature'', new_title = ''T'',
        new_body = ''B'', new_clientMutationId = None, new_ownerId = ''2000''\<rparr>
     = (Inl (KeyError ''2000''), GitHubState_init\<lparr>priv_next_id := 5001\<rparr>)"
proof -
  have h: "map_of (repositories GitHubState_init) ''2000'' = None"
    by (simp add: GitHubState_init_def)
  have "priv_next_id GitHubState_init = 5000"
    by (simp add: GitHubState_init_def)
  with h createPullRequest_unknown_owner [of GitHubState_init
       "\<lparr>new_baseRefName = ''main'', new_headRefName = ''feature'', new_title = ''T'',
        new_body = ''B'', new_clientMutationId = None, new_ownerId = ''2000''\<rparr>"]
  show ?thesis by simp
qed

subsection \<open>Lookup by identifier\<close>

text \<open>
  C7. \<^verbatim>\<open>node(id)\<close> returns the repository stored under \<open>id\<close> when there is one, otherwise
  the pull request stored under \<open>id\<close> when there is one, and otherwise raises a
  \<^verbatim>\<open>RuntimeError\<close> whose message is \<^verbatim>\<open>unknown id\<close> followed by the identifier; on the
  seeded store \<^verbatim>\<open>node("9999")\<close> raises with the message \<^verbatim>\<open>unknown id 9999\<close>.
\<close>

theorem Root_node_spec:
  "(\<forall>r. map_of (repositories s) i = Some r \<longrightarrow> Root_node s i = Inr (RepositoryNode r)) \<and>
   (\<forall>pr. map_of (repositories s) i = None \<and> map_of (pull_requests s) i = Some pr \<longrightarrow>
      Root_node s i = Inr (PullRequestNode pr)) \<and>
   (map_of (repositories s) i = None \<and> map_of (pull_requests s) i = None \<longrightarrow>
      Root_node s i = Inl (RuntimeError (''unknown id '' @ i))) \<and>
   Root_node GitHubState_init ''9999'' = Inl (RuntimeError ''unknown id 9999'')"
  by (simp add: Root_node_def GitHubState_init_def)

theorem Root_node_spec_witness:
  "Root_node GitHubState_init ''1000''
     = Inr (RepositoryNode \<lparr>id' = ''1000'', name = ''pytorch'', nameWithOwner = ''pytorch/pytorch''\<rparr>) \<and>
   map_of (repositories (reached [Mutation_createPullRequest example_create])) ''5000'' = None \<and>
   Root_node (reached [Mutation_createPullRequest example_create]) ''5000''
     = Inr (PullRequestNode \<lparr>id' = ''5000'', baseRefName = ''main'', body = ''B'',
             headRefName = ''feature'', number = 500, priv_repository = ''1000'', title = ''T'',
             url = ''https://github.com/pytorch/pytorch/pull/500''\<rparr>) \<and>
   map_of (repositories (reached [Mutation_createPullRequest example_create])) ''9999'' = None \<and>
   map_of (pull_requests (reached [Mutation_createPullRequest example_create])) ''9999'' = None \<and>
   Root_node (reached [Mutation_createPullRequest example_create]) ''9999''
     = Inl (RuntimeError ''unknown id 9999'')"
  using Root_node_spec [of GitHubState_init "''1000''"]
        Root_node_spec [of "reached [Mutation_createPullRequest example_create]" "''5000''"]
        Root_node_spec [of "reached [Mutation_createPullRequest example_create]" "''9999''"]
  by (simp add: reached_one GitHubState_init_def)

subsection \<open>The frame of \<^verbatim>\<open>updatePullRequest\<close>\<close>

text \<open>
  C1. For a pull request \<open>pr\<close> stored under \<^verbatim>\<open>input['pullRequestId']\<close>, \<^verbatim>\<open>updatePullRequest\<close>
  succeeds and returns, and stores under the same key, a pull request whose \<open>title\<close>,
  \<open>baseRefName\<close> and \<open>body\<close> are the input's value where the input field is present and not
  \<^verbatim>\<open>None\<close> and the old value otherwise, and whose \<open>id\<close>, \<open>number\<close>, \<open>url\<close>, \<open>headRefName\<close>
  and owning-repository reference are those of \<open>pr\<close>. Nothing else of the store changes. With
  none of the three fields set the pull request and the whole store are unchanged.
\<close>

theorem updatePullRequest_frame:
  assumes "map_of (pull_requests s) (upd_pullRequestId input) = Some pr"
  shows "\<exists>pr'.
     Root_updatePullRequest s input =
       (Inr \<lparr>updated_clientMutationId = dict_get (upd_clientMutationId input),
             updated_pullRequest = pr'\<rparr>,
        s\<lparr>pull_requests := AList.update (upd_pullRequestId input) pr' (pull_requests s)\<rparr>)
     \<and> title pr' = (case upd_title input of Some (Some v) \<Rightarrow> v | _ \<Rightarrow> title pr)
     \<and> baseRefName pr' = (case upd_baseRefName input of Some (Some v) \<Rightarrow> v | _ \<Rightarrow> baseRefName pr)
     \<and> body pr' = (case upd_body input of Some (Some v) \<Rightarrow> v | _ \<Rightarrow> body pr)
     \<and> id' pr' = id' pr \<and> number pr' = number pr \<and> url pr' = url pr
     \<and> headRefName pr' = headRefName pr \<and> priv_repository pr' = priv_repository pr
     \<and> (upd_title input \<in> {None, Some None} \<and> upd_baseRefName input \<in> {None, Some None}
          \<and> upd_body input \<in> {None, Some None}
        \<longrightarrow> pr' = pr \<and> snd (Root_updatePullRequest s input) = s)"
proof -
  define pr1 where "pr1 = (case upd_title input of Some (Some v) \<Rightarrow> pr\<lparr>title := v\<rparr> | _ \<Rightarrow> pr)"
  define pr2 where
    "pr2 = (case upd_baseRefName input of Some (Some v) \<Rightarrow> pr1\<lparr>baseRefName := v\<rparr> | _ \<Rightarrow> pr1)"
  define pr3 where "pr3 = (case upd_body input of Some (Some v) \<Rightarrow> pr2\<lparr>body := v\<rparr> | _ \<Rightarrow> pr2)"
  have run: "Root_updatePullRequest s input =
       (Inr \<lparr>updated_clientMutationId = dict_get (upd_clientMutationId input),
             updated_pullRequest = pr3\<rparr>,
        s\<lparr>pull_requests := AList.update (upd_pullRequestId input) pr3 (pull_requests s)\<rparr>)"
    using assms unfolding pr1_def pr2_def pr3_def
    by (simp add: Root_updatePullRequest_def Let_def)
  have changed: "title pr3 = (case upd_title input of Some (Some v) \<Rightarrow> v | _ \<Rightarrow> title pr)"
    "baseRefName pr3 = (case upd_baseRefName input of Some (Some v) \<Rightarrow> v | _ \<Rightarrow> baseRefName pr)"
    "body pr3 = (case upd_body input of Some (Some v) \<Rightarrow> v | _ \<Rightarrow> body pr)"
    by (simp_all add: pr1_def pr2_def pr3_def split: option.splits)
  have kept: "id' pr3 = id' pr" "number pr3 = number pr" "url pr3 = url pr"
    "headRefName pr3 = headRefName pr" "priv_repository pr3 = priv_repository pr"
    by (simp_all add: pr1_def pr2_def pr3_def split: option.splits)
  have unset: "pr3 = pr \<and> snd (Root_updatePullRequest s input) = s"
    if "upd_title input \<in> {None, Some None}" "upd_baseRefName input \<in> {None, Some None}"
       "upd_body input \<in> {None, Some None}"
  proof -
    from that have "pr3 = pr"
      by (auto simp add: pr1_def pr2_def pr3_def)
    moreover from this assms have "AList.update (upd_pullRequestId input) pr3 (pull_requests s) = pull_requests s"
      by (simp add: AList.update_triv)
    ultimately show ?thesis by (simp add: run)
  qed
  from run changed kept unset show ?thesis by blast
qed

theorem updatePullRequest_frame_witness:
  "map_of (pull_requests (reached [Mutation_createPullRequest example_create])) ''5000''
     = Some \<lparr>id' = ''5000'', baseRefName = ''main'', body = ''B'',
             headRefName = ''feature'', number = 500, priv_repository = ''1000'', title = ''T'',
             url = ''https://github.com/pytorch/pytorch/pull/500''\<rparr> \<and>
   fst (Root_updatePullRequest (reached [Mutation_createPullRequest example_create]) example_update)
     = Inr \<lparr>updated_clientMutationId = None,
            updated_pullRequest = \<lparr>id' = ''5000'', baseRefName = ''main'', body = ''B'',
             headRefName = ''feature'', number = 500, priv_repository = ''1000'', title = ''T2'',
             url = ''https://github.com/pytorch/pytorch/pull/500''\<rparr>\<rparr> \<and>
   Root_updatePullRequest (reached [Mutation_createPullRequest example_create]) example_update_none
     = (Inr \<lparr>updated_clientMutationId = Some ''m'',
            updated_pullRequest = \<lparr>id' = ''5000'', baseRefName = ''main'', body = ''B'',
             headRefName = ''feature'', number = 500, priv_repository = ''1000'', title = ''T'',
             url = ''https://github.com/pytorch/pytorch/pull/500''\<rparr>\<rparr>,
        reached [Mutation_createPullRequest example_create])"
proof -
  let ?s = "reached [Mutation_createPullRequest example_create]"
  let ?pr = "\<lparr>id' = ''5000'', baseRefName = ''main'', body = ''B'',
             headRefName = ''feature'', number = 500, priv_repository = ''1000'', title = ''T'',
             url = ''https://github.com/pytorch/pytorch/pull/500''\<rparr>"
  have h1: "map_of (pull_requests ?s) (upd_pullRequestId example_update) = Some ?pr"
    by (simp add: reached_one example_update_def)
  have h2: "map_of (pull_requests ?s) (upd_pullRequestId example_update_none) = Some ?pr"
    by (simp add: reached_one example_update_none_def)
  from updatePullRequest_frame [OF h1] obtain p1 where
    p1: "Root_updatePullRequest ?s example_update =
       (Inr \<lparr>updated_clientMutationId = dict_get (upd_clientMutationId example_update),
             updated_pullRequest = p1\<rparr>,
        ?s\<lparr>pull_requests := AList.update (upd_pullRequestId example_update) p1 (pull_requests ?s)\<rparr>)"
    "title p1 = ''T2''" "baseRefName p1 = ''main''" "body p1 = ''B''" "id' p1 = ''5000''"
    "number p1 = 500" "url p1 = ''https://github.com/pytorch/pytorch/pull/500''"
    "headRefName p1 = ''feature''" "priv_repository p1 = ''1000''"
    by (auto simp add: example_update_def)
  have "p1 = \<lparr>id' = ''5000'', baseRefName = ''main'', body = ''B'',
             headRefName = ''feature'', number = 500, priv_repository = ''1000'', title = ''T2'',
             url = ''https://github.com/pytorch/pytorch/pull/500''\<rparr>"
    using p1(2-) by (cases p1) simp
  with p1(1) have a: "fst (Root_updatePullRequest ?s example_update)
     = Inr \<lparr>updated_clientMutationId = None,
            updated_pullRequest = \<lparr>id' = ''5000'', baseRefName = ''main'', body = ''B'',
             headRefName = ''feature'', number = 500, priv_repository = ''1000'', title = ''T2'',
             url = ''https://github.com/pytorch/pytorch/pull/500''\<rparr>\<rparr>"
    by (simp add: example_update_def dict_get_def)
  from updatePullRequest_frame [OF h2] obtain p2 where
    p2: "Root_updatePullRequest ?s example_update_none =
       (Inr \<lparr>updated_clientMutationId = dict_get (upd_clientMutationId example_update_none),
             updated_pullRequest = p2\<rparr>,
        ?s\<lparr>pull_requests := AList.update (upd_pullRequestId example_update_none) p2 (pull_requests ?s)\<rparr>)"
    "p2 = ?pr" "snd (Root_updatePullRequest ?s example_update_none) = ?s"
    by (auto simp add: example_update_none_def)
  have b: "Root_updatePullRequest ?s example_update_none
     = (Inr \<lparr>updated_clientMutationId = Some ''m'', updated_pullRequest = ?pr\<rparr>, ?s)"
    using p2 by (simp add: prod_eq_iff example_update_none_def dict_get_def)
  from h1 a b show ?thesis by (simp add: example_update_def)
qed

subsection \<open>The facade\<close>

text \<open>
  C8. Whatever the engine returns for a query and its variables, the facade either returns
  the one-entry dictionary \<^verbatim>\<open>{'data': r.data}\<close>, which it does exactly when the engine
  reported no error (\<^verbatim>\<open>r.errors\<close> is \<^verbatim>\<open>None\<close> or empty), or raises one \<^verbatim>\<open>RuntimeError\<close>
  whose message is a heading followed by the messages of all the errors, in order and
  separated by newlines; with an error reported it never returns data.
\<close>

theorem graphql_spec:
  assumes "graphql_sync context query kwargs = (r, context')"
  shows "(errors r = None \<or> errors r = Some [] \<longrightarrow>
            graphql graphql_sync str_error context query kwargs
              = (Inr [(''data'', data r)], context')) \<and>
         (\<forall>es. errors r = Some es \<and> es \<noteq> [] \<longrightarrow>
            graphql graphql_sync str_error context query kwargs
              = (Inl (RuntimeError (''GraphQL query failed with errors:'' @ newline @ newline
                        @ str_join newline (map str_error es))), context'))"
  using assms by (auto simp add: graphql_def graphql_response_def split: option.splits list.splits)

theorem graphql_spec_witness:
  "graphql (\<lambda>s q v. (\<lparr>data = Some ''d'', errors = None\<rparr>, s)) (\<lambda>e. e) GitHubState_init ''q'' ()
     = (Inr [(''data'', Some ''d'')], GitHubState_init) \<and>
   graphql (\<lambda>s q v. (\<lparr>data = Some ''d'', errors = Some [''boom'', ''bang'']\<rparr>, s)) (\<lambda>e. e)
       GitHubState_init ''q'' ()
     = (Inl (RuntimeError (''GraphQL query failed with errors:'' @ [CHR 0x0A, CHR 0x0A]
               @ ''boom'' @ [CHR 0x0A] @ ''bang'')), GitHubState_init)"
  using graphql_spec [of "\<lambda>s q v. (\<lparr>data = Some ''d'', errors = None\<rparr>, s)" GitHubState_init "''q''" "()"
           "\<lparr>data = Some ''d'', errors = None\<rparr>" GitHubState_init "\<lambda>e. e"]
        graphql_spec [of "\<lambda>s q v. (\<lparr>data = Some ''d'', errors = Some [''boom'', ''bang'']\<rparr>, s)"
           GitHubState_init "''q''" "()"
           "\<lparr>data = Some ''d'', errors = Some [''boom'', ''bang'']\<rparr>" GitHubState_init "\<lambda>e. e"]
  by (simp add: newline_def)


subsection \<open>References to repositories\<close>

text \<open>
  C6. In every store reached from the seeded store by a sequence of resolver calls (queries
  and mutations), the owning-repository reference of every stored pull request is a key of
  \<^verbatim>\<open>repositories\<close>, so \<^verbatim>\<open>PullRequest.repository\<close> returns a repository and does not raise.
\<close>

theorem pullRequest_repository_resolves:
  "\<forall>pr \<in> set (map snd (pull_requests (reached qs))).
     \<exists>r. map_of (repositories (reached qs)) (priv_repository pr) = Some r \<and>
         PullRequest_repository (reached qs) pr = Inr r"
proof
  fix pr
  assume "pr \<in> set (map snd (pull_requests (reached qs)))"
  then obtain k where "(k, pr) \<in> set (pull_requests (reached qs))" by auto
  with store_inv_reached [of qs] have "priv_repository pr = ''1000''"
    and "repositories (reached qs) = repositories GitHubState_init"
    unfolding store_inv_def by auto
  then show "\<exists>r. map_of (repositories (reached qs)) (priv_repository pr) = Some r \<and>
         PullRequest_repository (reached qs) pr = Inr r"
    by (simp add: PullRequest_repository_def repositories_init)
qed

theorem pullRequest_repository_resolves_witness:
  "map snd (pull_requests (reached example_calls)) =
     [\<lparr>id' = ''5000'', baseRefName = ''main'', body = ''B'', headRefName = ''feature'',
           number = 500, priv_repository = ''1000'', title = ''T2'',
           url = ''https://github.com/pytorch/pytorch/pull/500''\<rparr>,
      \<lparr>id' = ''5002'', baseRefName = ''main'', body = ''B'', headRefName = ''feature'',
           number = 501, priv_repository = ''1000'', title = ''T'',
           url = ''https://github.com/pytorch/pytorch/pull/501''\<rparr>] \<and>
   PullRequest_repository (reached example_calls)
       \<lparr>id' = ''5000'', baseRefName = ''main'', body = ''B'', headRefName = ''feature'',
           number = 500, priv_repository = ''1000'', title = ''T2'',
           url = ''https://github.com/pytorch/pytorch/pull/500''\<rparr> = Inr seed_repository \<and>
   PullRequest_repository (reached example_calls)
       \<lparr>id' = ''5002'', baseRefName = ''main'', body = ''B'', headRefName = ''feature'',
           number = 501, priv_repository = ''1000'', title = ''T'',
           url = ''https://github.com/pytorch/pytorch/pull/501''\<rparr> = Inr seed_repository"
  using pullRequest_repository_resolves [of example_calls]
  by (simp add: reached_def resolve_all_example)

subsection \<open>Identifiers\<close>

text \<open>
  C3. Along every sequence of resolver calls on the seeded store, the identifier of the
  seeded repository and the identifiers handed out by \<^verbatim>\<open>next_id\<close> are pairwise distinct;
  the identifiers of the stored repositories and pull requests are pairwise distinct across
  both kinds; every stored pull request carries one of the identifiers handed out, and every
  entity is stored under its own identifier.
\<close>

theorem identifiers_distinct:
  "distinct (map (id' \<circ> snd) (repositories GitHubState_init) @ allocated GitHubState_init qs) \<and>
   distinct (map (id' \<circ> snd) (repositories (reached qs))
               @ map (id' \<circ> snd) (pull_requests (reached qs))) \<and>
   set (map (id' \<circ> snd) (pull_requests (reached qs))) \<subseteq> set (allocated GitHubState_init qs) \<and>
   map fst (repositories (reached qs)) = map (id' \<circ> snd) (repositories (reached qs)) \<and>
   map fst (pull_requests (reached qs)) = map (id' \<circ> snd) (pull_requests (reached qs))"
proof -
  let ?s = "reached qs"
  have inv: "store_inv ?s" by (rule store_inv_reached)
  have range: "set (allocated GitHubState_init qs) = str_int ` {5000..<priv_next_id ?s}"
    and dist: "distinct (allocated GitHubState_init qs)"
    using allocated_range [of GitHubState_init qs]
    by (simp_all add: reached_def) (simp_all add: GitHubState_init_def)
  have seed: "str_int 1000 \<notin> str_int ` {5000..<priv_next_id ?s}"
    by (auto dest: str_int_inj)
  have repos: "repositories ?s = [(''1000'', seed_repository)]"
    using inv unfolding store_inv_def by (simp add: repositories_init seed_repository_def)
  have keys: "map fst (pull_requests ?s) = map (id' \<circ> snd) (pull_requests ?s)"
    using inv unfolding store_inv_def by auto
  have sub: "set (map fst (pull_requests ?s)) \<subseteq> str_int ` {5000..<priv_next_id ?s}"
    using inv unfolding store_inv_def by auto
  have c1: "distinct (map (id' \<circ> snd) (repositories GitHubState_init) @ allocated GitHubState_init qs)"
    using dist seed range by (simp add: repositories_init str_int_1000)
  have c2: "distinct (map (id' \<circ> snd) (repositories ?s) @ map (id' \<circ> snd) (pull_requests ?s))"
  proof -
    have "distinct (map fst (pull_requests ?s))"
      using inv unfolding store_inv_def by simp
    moreover have "''1000'' \<notin> set (map fst (pull_requests ?s))"
      using sub seed by (auto simp add: str_int_1000)
    ultimately show ?thesis
      unfolding keys [symmetric] by (simp add: repos seed_repository_def)
  qed
  have c3: "set (map (id' \<circ> snd) (pull_requests ?s)) \<subseteq> set (allocated GitHubState_init qs)"
    using sub unfolding keys range .
  have c4: "map fst (repositories ?s) = map (id' \<circ> snd) (repositories ?s)"
    by (simp add: repos seed_repository_def)
  from c1 c2 c3 c4 keys show ?thesis by blast
qed

theorem identifiers_distinct_witness:
  "map (id' \<circ> snd) (repositories GitHubState_init) @ allocated GitHubState_init example_calls
     = [''1000'', ''5000'', ''5001'', ''5002''] \<and>
   map (id' \<circ> snd) (repositories (reached example_calls))
       @ map (id' \<circ> snd) (pull_requests (reached example_calls))
     = [''1000'', ''5000'', ''5002''] \<and>
   distinct [''1000'', ''5000'', ''5001'', ''5002''] \<and>
   distinct [''1000'', ''5000'', ''5002'']"
  using identifiers_distinct [of example_calls]
  by (simp add: reached_def resolve_all_example allocated_example repositories_init seed_repository_def)

subsection \<open>Pull request numbers\<close>

lemma created_numbers_Cons:
  "created_numbers rid (r # rs) = created_numbers rid [r] @ created_numbers rid rs"
  by (cases "(rid, r # rs)" rule: created_numbers.cases) auto

lemma resolve_all_fst_Cons:
  "fst (resolve_all s (q # qs)) = fst (resolve s q) # fst (resolve_all (snd (resolve s q)) qs)"
  by (simp split: prod.splits)

lemma resolve_number_step:
  assumes "priv_next_pull_request_number s rid = Some c"
  shows "(created_numbers rid [fst (resolve s q)] = [] \<and>
            priv_next_pull_request_number (snd (resolve s q)) rid = Some c) \<or>
         (created_numbers rid [fst (resolve s q)] = [c] \<and>
            priv_next_pull_request_number (snd (resolve s q)) rid = Some (c + 1))"
proof (cases q)
  case (Mutation_updatePullRequest ui)
  show ?thesis
  proof (cases "map_of (pull_requests s) (upd_pullRequestId ui)")
    case None
    with assms show ?thesis
      by (simp add: Mutation_updatePullRequest updatePullRequest_None)
  next
    case (Some pr0)
    from updatePullRequest_Some [OF Some] assms show ?thesis
      by (auto simp add: Mutation_updatePullRequest)
  qed
next
  case (Mutation_createPullRequest ci)
  from createPullRequest_cases [of s ci] assms show ?thesis
    by (auto simp add: Mutation_createPullRequest)
qed (simp_all add: assms)

lemma created_numbers_consecutive:
  "priv_next_pull_request_number s rid = Some c \<Longrightarrow>
   created_numbers rid (fst (resolve_all s qs))
     = map (\<lambda>k. c + int k) [0..<length (created_numbers rid (fst (resolve_all s qs)))]"
proof (induction qs arbitrary: s c)
  case Nil
  show ?case by simp
next
  case (Cons q qs)
  let ?s' = "snd (resolve s q)"
  let ?rest = "created_numbers rid (fst (resolve_all ?s' qs))"
  have split: "created_numbers rid (fst (resolve_all s (q # qs)))
                 = created_numbers rid [fst (resolve s q)] @ ?rest"
    by (simp only: resolve_all_fst_Cons) (rule created_numbers_Cons)
  from resolve_number_step [OF Cons.prems, of q] show ?case
  proof (elim disjE conjE)
    assume "created_numbers rid [fst (resolve s q)] = []"
      and "priv_next_pull_request_number ?s' rid = Some c"
    with Cons.IH [of ?s' c] show ?thesis by (simp only: split append_Nil)
  next
    assume one: "created_numbers rid [fst (resolve s q)] = [c]"
      and counter: "priv_next_pull_request_number ?s' rid = Some (c + 1)"
    from counter have rest: "?rest = map (\<lambda>k. c + 1 + int k) [0..<length ?rest]"
      by (rule Cons.IH [of ?s' "c + 1"])
    define n where "n = length ?rest"
    have rest': "?rest = map (\<lambda>k. c + 1 + int k) [0..<n]"
      using rest unfolding n_def .
    have shift: "map (\<lambda>k. c + int k) [0..<Suc n] = c # map (\<lambda>k. c + 1 + int k) [0..<n]"
      by (simp add: map_upt_Suc del: upt_Suc)
    have full: "created_numbers rid (fst (resolve_all s (q # qs))) = c # ?rest"
      by (simp only: split one append_Cons append_Nil)
    have len: "length (c # ?rest) = Suc n"
      by (simp add: n_def)
    show ?thesis
      unfolding full len shift using rest' by simp
  qed
qed

text \<open>
  C2. From any store in which the repository \<open>rid\<close> has the number counter \<open>c\<close>, and for any
  sequence of resolver calls, the numbers returned by the successful \<^verbatim>\<open>createPullRequest\<close>
  calls for \<open>rid\<close> are, in order, \<open>c\<close>, \<open>c + 1\<close>, \<open>c + 2\<close> and so on. The seeded counter of
  repository \<^verbatim>\<open>"1000"\<close> is 500; on the seeded store the scenario's call returns number 500
  and the url \<^verbatim>\<open>https://github.com/pytorch/pytorch/pull/500\<close>, and a second call returns
  number 501.
\<close>

theorem createPullRequest_numbers:
  "(priv_next_pull_request_number s rid = Some c \<longrightarrow>
      created_numbers rid (fst (resolve_all s qs))
        = map (\<lambda>k. c + int k) [0..<length (created_numbers rid (fst (resolve_all s qs)))]) \<and>
   priv_next_pull_request_number GitHubState_init ''1000'' = Some 500 \<and>
   fst (resolve_all GitHubState_init
          [Mutation_createPullRequest example_create, Mutation_createPullRequest example_create])
     = [Create_response (Inr \<lparr>created_clientMutationId = None, created_pullRequest =
          \<lparr>id' = ''5000'', baseRefName = ''main'', body = ''B'', headRefName = ''feature'',
           number = 500, priv_repository = ''1000'', title = ''T'',
           url = ''https://github.com/pytorch/pytorch/pull/500''\<rparr>\<rparr>),
        Create_response (Inr \<lparr>created_clientMutationId = None, created_pullRequest =
          \<lparr>id' = ''5001'', baseRefName = ''main'', body = ''B'', headRefName = ''feature'',
           number = 501, priv_repository = ''1000'', title = ''T'',
           url = ''https://github.com/pytorch/pytorch/pull/501''\<rparr>\<rparr>)]"
proof (intro conjI impI)
  assume "priv_next_pull_request_number s rid = Some c"
  then show "created_numbers rid (fst (resolve_all s qs))
        = map (\<lambda>k. c + int k) [0..<length (created_numbers rid (fst (resolve_all s qs)))]"
    by (rule created_numbers_consecutive)
next
  show "priv_next_pull_request_number GitHubState_init ''1000'' = Some 500"
    by (simp add: GitHubState_init_def)
next
  show "fst (resolve_all GitHubState_init
          [Mutation_createPullRequest example_create, Mutation_createPullRequest example_create])
     = [Create_response (Inr \<lparr>created_clientMutationId = None, created_pullRequest =
          \<lparr>id' = ''5000'', baseRefName = ''main'', body = ''B'', headRefName = ''feature'',
           number = 500, priv_repository = ''1000'', title = ''T'',
           url = ''https://github.com/pytorch/pytorch/pull/500''\<rparr>\<rparr>),
        Create_response (Inr \<lparr>created_clientMutationId = None, created_pullRequest =
          \<lparr>id' = ''5001'', baseRefName = ''main'', body = ''B'', headRefName = ''feature'',
           number = 501, priv_repository = ''1000'', title = ''T'',
           url = ''https://github.com/pytorch/pytorch/pull/501''\<rparr>\<rparr>)]"
    by (simp add: eval_defs)
qed

theorem createPullRequest_numbers_witness:
  "priv_next_pull_request_number GitHubState_init ''1000'' = Some 500 \<and>
   created_numbers ''1000'' (fst (resolve_all GitHubState_init example_calls)) = [500, 501]"
proof -
  have h: "priv_next_pull_request_number GitHubState_init ''1000'' = Some 500"
    by (simp add: GitHubState_init_def)
  have v: "created_numbers ''1000'' (fst (resolve_all GitHubState_init example_calls)) = [500, 501]"
    by (simp add: resolve_all_example)
  from createPullRequest_numbers [of GitHubState_init "''1000''" 500 example_calls] h
  have "created_numbers ''1000'' (fst (resolve_all GitHubState_init example_calls))
          = map (\<lambda>k. 500 + int k)
              [0..<length (created_numbers ''1000'' (fst (resolve_all GitHubState_init example_calls)))]"
    by blast
  with h v show ?thesis by simp
qed

subsection \<open>Which pull requests belong to a repository\<close>

lemma PullRequest_repository_eq:
  "PullRequest_repository s pr = Inr r \<longleftrightarrow> map_of (repositories s) (priv_repository pr) = Some r"
  by (simp add: PullRequest_repository_def split: option.splits)

lemma filter_repository_resolved:
  "\<forall>pr \<in> set prs. map_of (repositories s) (priv_repository pr) \<noteq> None \<Longrightarrow>
   filter_repository s self prs
     = Inr (filter (\<lambda>pr. map_of (repositories s) (priv_repository pr) = Some self) prs)"
proof (induction prs)
  case Nil
  show ?case by simp
next
  case (Cons pr prs)
  then obtain r where "map_of (repositories s) (priv_repository pr) = Some r" by auto
  then have "PullRequest_repository s pr = Inr r" and "map_of (repositories s) (priv_repository pr) = Some self \<longleftrightarrow> self = r"
    by (auto simp add: PullRequest_repository_eq)
  with Cons show ?case by simp
qed

lemma pullRequest_loop_resolved:
  "\<forall>pr \<in> set prs. map_of (repositories s) (priv_repository pr) \<noteq> None \<Longrightarrow>
   pullRequest_loop s self n prs
     = (case find (\<lambda>pr. map_of (repositories s) (priv_repository pr) = Some self \<and> number pr = n) prs of
          Some pr \<Rightarrow> Inr pr
        | None \<Rightarrow> Inl (RuntimeError (''unrecognized pull request #'' @ str_int n
                          @ '' in repository '' @ nameWithOwner self)))"
proof (induction prs)
  case Nil
  show ?case by simp
next
  case (Cons pr prs)
  then obtain r where "map_of (repositories s) (priv_repository pr) = Some r" by auto
  then have "PullRequest_repository s pr = Inr r" and "map_of (repositories s) (priv_repository pr) = Some self \<longleftrightarrow> self = r"
    by (auto simp add: PullRequest_repository_eq)
  with Cons show ?case by simp
qed



lemma store_inv_seed_stored:
  assumes "store_inv s"
  shows "map_of (repositories s) k = Some seed_repository \<longleftrightarrow> k = id' seed_repository"
  using assms unfolding store_inv_def
  by (auto simp add: repositories_init seed_repository_def)

lemma store_inv_resolved:
  assumes "store_inv s"
  shows "\<forall>pr \<in> set (map snd (pull_requests s)). map_of (repositories s) (priv_repository pr) \<noteq> None"
  using assms unfolding store_inv_def by (auto simp add: repositories_init)

lemma reached_stored_receiver:
  assumes "self \<in> set (map snd (repositories (reached qs)))"
  shows "(\<forall>pr \<in> set (map snd (pull_requests (reached qs))).
            map_of (repositories (reached qs)) (priv_repository pr) \<noteq> None) \<and>
         (\<forall>k. map_of (repositories (reached qs)) k = Some self \<longleftrightarrow> k = id' self)"
proof -
  have inv: "store_inv (reached qs)" by (rule store_inv_reached)
  then have "repositories (reached qs) = [(''1000'', seed_repository)]"
    unfolding store_inv_def by (simp add: repositories_init seed_repository_def)
  with assms have "self = seed_repository" by simp
  with store_inv_resolved [OF inv] store_inv_seed_stored [OF inv] show ?thesis by simp
qed

lemma selection_by_identifier:
  assumes "\<forall>pr \<in> set (map snd (pull_requests s)). map_of (repositories s) (priv_repository pr) \<noteq> None"
    and "\<forall>k. map_of (repositories s) k = Some self \<longleftrightarrow> k = id' self"
  shows "Repository_pullRequests s self
        = Inr \<lparr>nodes = filter (\<lambda>pr. priv_repository pr = id' self) (map snd (pull_requests s))\<rparr>"
    and "Repository_pullRequest s self n
        = (case find (\<lambda>pr. priv_repository pr = id' self \<and> number pr = n) (map snd (pull_requests s)) of
             Some pr \<Rightarrow> Inr pr
           | None \<Rightarrow> Inl (RuntimeError (''unrecognized pull request #'' @ str_int n
                          @ '' in repository '' @ nameWithOwner self)))"
  using assms
  by (simp_all add: Repository_pullRequests_def filter_repository_resolved
      Repository_pullRequest_def pullRequest_loop_resolved)




subsection \<open>The pull requests of a repository, in order\<close>

lemma length_update:
  "length (AList.update k v al) = (if k \<in> fst ` set al then length al else Suc (length al))"
  by (induction al) auto

lemma seed_pullRequests:
  assumes "store_inv s"
  shows "Repository_pullRequests s seed_repository = Inr \<lparr>nodes = map snd (pull_requests s)\<rparr>"
proof -
  have "filter (\<lambda>pr. map_of (repositories s) (priv_repository pr) = Some seed_repository)
          (map snd (pull_requests s)) = map snd (pull_requests s)"
    using assms unfolding store_inv_def
    by (auto simp add: repositories_init seed_repository_def filter_id_conv)
  with store_inv_resolved [OF assms] show ?thesis
    by (simp add: Repository_pullRequests_def filter_repository_resolved)
qed

lemma seed_Root_repository:
  assumes "store_inv s"
  shows "Root_repository s ''pytorch'' ''pytorch'' = Inr seed_repository"
  using assms unfolding store_inv_def
  by (simp add: Root_repository_def repositories_init seed_repository_def)

lemma resolve_growth:
  assumes "store_inv s"
  shows "case fst (resolve s q) of
           Create_response (Inr p) \<Rightarrow>
             map snd (pull_requests (snd (resolve s q)))
               = map snd (pull_requests s) @ [created_pullRequest p]
         | _ \<Rightarrow> length (pull_requests (snd (resolve s q))) = length (pull_requests s)"
proof (cases q)
  case (Mutation_updatePullRequest ui)
  show ?thesis
  proof (cases "map_of (pull_requests s) (upd_pullRequestId ui)")
    case None
    then show ?thesis
      by (simp add: Mutation_updatePullRequest updatePullRequest_None)
  next
    case (Some pr0)
    then have key: "upd_pullRequestId ui \<in> fst ` set (pull_requests s)"
      by (metis domI dom_map_of_conv_image_fst)
    from updatePullRequest_Some [OF Some] obtain pr' where
      "Root_updatePullRequest s ui
        = (Inr \<lparr>updated_clientMutationId = dict_get (upd_clientMutationId ui),
                updated_pullRequest = pr'\<rparr>,
           s\<lparr>pull_requests := AList.update (upd_pullRequestId ui) pr' (pull_requests s)\<rparr>)"
      by blast
    then show ?thesis
      by (simp add: Mutation_updatePullRequest length_update key)
  qed
next
  case (Mutation_createPullRequest ci)
  have fresh: "str_int (priv_next_id s) \<notin> fst ` set (pull_requests s)"
  proof
    assume "str_int (priv_next_id s) \<in> fst ` set (pull_requests s)"
    with assms have "str_int (priv_next_id s) \<in> str_int ` {5000..<priv_next_id s}"
      unfolding store_inv_def by auto
    then show False by (auto dest: str_int_inj)
  qed
  from createPullRequest_cases [of s ci] show ?thesis
    by (auto simp add: Mutation_createPullRequest update_fresh [OF fresh])
qed simp_all

text \<open>
  C5. In every store reached from the seeded store by a sequence of resolver calls, and for
  every repository stored in it, \<^verbatim>\<open>pullRequests()\<close> returns exactly the stored pull requests
  whose owning-repository reference equals the repository's identifier, in the order of the
  store (insertion order, which is creation order) and unsorted; the same holds in any store
  where every reference resolves and the receiver is stored under its own identifier only.
  In every reached store \<^verbatim>\<open>repository("pytorch", "pytorch")\<close> is the seeded repository;
  its list is empty on the seeded store, is the list of all stored pull requests, gains the
  created pull request at its end with a successful \<^verbatim>\<open>createPullRequest\<close>, and keeps its
  length with every other call.
\<close>

theorem pullRequests_order_and_growth:
  "(stored \<in> set (map snd (repositories (reached qs))) \<longrightarrow>
      Repository_pullRequests (reached qs) stored
        = Inr \<lparr>nodes = filter (\<lambda>pr. priv_repository pr = id' stored)
                          (map snd (pull_requests (reached qs)))\<rparr>) \<and>
   ((\<forall>pr \<in> set (map snd (pull_requests s)). map_of (repositories s) (priv_repository pr) \<noteq> None) \<and>
    (\<forall>k. map_of (repositories s) k = Some self \<longleftrightarrow> k = id' self) \<longrightarrow>
      Repository_pullRequests s self
        = Inr \<lparr>nodes = filter (\<lambda>pr. priv_repository pr = id' self) (map snd (pull_requests s))\<rparr>) \<and>
   Root_repository (reached qs) ''pytorch'' ''pytorch'' = Inr seed_repository \<and>
   Repository_pullRequests GitHubState_init seed_repository = Inr \<lparr>nodes = []\<rparr> \<and>
   Repository_pullRequests (reached qs) seed_repository
     = Inr \<lparr>nodes = map snd (pull_requests (reached qs))\<rparr> \<and>
   (case fst (resolve (reached qs) q) of
      Create_response (Inr p) \<Rightarrow>
        Repository_pullRequests (snd (resolve (reached qs) q)) seed_repository
          = Inr \<lparr>nodes = map snd (pull_requests (reached qs)) @ [created_pullRequest p]\<rparr>
    | _ \<Rightarrow>
        (\<exists>after. Repository_pullRequests (snd (resolve (reached qs) q)) seed_repository
                    = Inr \<lparr>nodes = after\<rparr> \<and>
                 length after = length (pull_requests (reached qs))))"
proof -
  let ?s = "reached qs"
  let ?s' = "snd (resolve ?s q)"
  have inv: "store_inv ?s" by (rule store_inv_reached)
  then have inv': "store_inv ?s'" by (rule store_inv_resolve)
  have on_reached: "Repository_pullRequests ?s stored
        = Inr \<lparr>nodes = filter (\<lambda>pr. priv_repository pr = id' stored) (map snd (pull_requests ?s))\<rparr>"
    if "stored \<in> set (map snd (repositories ?s))"
    using reached_stored_receiver [OF that] by (intro selection_by_identifier) simp_all
  have general: "Repository_pullRequests s self
        = Inr \<lparr>nodes = filter (\<lambda>pr. priv_repository pr = id' self) (map snd (pull_requests s))\<rparr>"
    if "\<forall>pr \<in> set (map snd (pull_requests s)). map_of (repositories s) (priv_repository pr) \<noteq> None"
      and "\<forall>k. map_of (repositories s) k = Some self \<longleftrightarrow> k = id' self"
    using that by (rule selection_by_identifier)
  have start: "Repository_pullRequests GitHubState_init seed_repository = Inr \<lparr>nodes = []\<rparr>"
    using seed_pullRequests [OF store_inv_init] by (simp add: GitHubState_init_def)
  have after: "Repository_pullRequests ?s' seed_repository = Inr \<lparr>nodes = map snd (pull_requests ?s')\<rparr>"
    using inv' by (rule seed_pullRequests)
  have step: "case fst (resolve ?s q) of
      Create_response (Inr p) \<Rightarrow>
        Repository_pullRequests ?s' seed_repository
          = Inr \<lparr>nodes = map snd (pull_requests ?s) @ [created_pullRequest p]\<rparr>
    | _ \<Rightarrow>
        (\<exists>after. Repository_pullRequests ?s' seed_repository = Inr \<lparr>nodes = after\<rparr> \<and>
                 length after = length (pull_requests ?s))"
    using resolve_growth [OF inv, of q] unfolding after
    by (auto split: response.splits sum.splits)
  from on_reached general start step seed_pullRequests [OF inv] seed_Root_repository [OF inv]
  show ?thesis by blast
qed

theorem pullRequests_order_and_growth_witness:
  "Repository_pullRequests (reached example_calls) seed_repository
     = Inr \<lparr>nodes =
        [\<lparr>id' = ''5000'', baseRefName = ''main'', body = ''B'', headRefName = ''feature'',
           number = 500, priv_repository = ''1000'', title = ''T2'',
           url = ''https://github.com/pytorch/pytorch/pull/500''\<rparr>,
         \<lparr>id' = ''5002'', baseRefName = ''main'', body = ''B'', headRefName = ''feature'',
           number = 501, priv_repository = ''1000'', title = ''T'',
           url = ''https://github.com/pytorch/pytorch/pull/501''\<rparr>]\<rparr> \<and>
   Repository_pullRequests
       (snd (resolve (reached example_calls) (Mutation_createPullRequest example_create)))
       seed_repository
     = Inr \<lparr>nodes =
        [\<lparr>id' = ''5000'', baseRefName = ''main'', body = ''B'', headRefName = ''feature'',
           number = 500, priv_repository = ''1000'', title = ''T2'',
           url = ''https://github.com/pytorch/pytorch/pull/500''\<rparr>,
         \<lparr>id' = ''5002'', baseRefName = ''main'', body = ''B'', headRefName = ''feature'',
           number = 501, priv_repository = ''1000'', title = ''T'',
           url = ''https://github.com/pytorch/pytorch/pull/501''\<rparr>,
         \<lparr>id' = ''5003'', baseRefName = ''main'', body = ''B'', headRefName = ''feature'',
           number = 502, priv_repository = ''1000'', title = ''T'',
           url = ''https://github.com/pytorch/pytorch/pull/502''\<rparr>]\<rparr>"
proof -
  let ?s = "reached example_calls"
  let ?q = "Mutation_createPullRequest example_create"
  have s: "?s = snd (resolve_all GitHubState_init example_calls)"
    by (simp add: reached_def)
  have h1: "\<forall>pr \<in> set (map snd (pull_requests ?s)). map_of (repositories ?s) (priv_repository pr) \<noteq> None"
    by (simp add: s resolve_all_example)
  have h2: "\<forall>k. map_of (repositories ?s) k = Some seed_repository \<longleftrightarrow> k = id' seed_repository"
    by (simp add: s resolve_all_example) (simp add: seed_repository_def)
  have h3: "seed_repository \<in> set (map snd (repositories ?s))"
    by (simp add: s resolve_all_example)
  have r: "fst (resolve ?s ?q) = Create_response (Inr \<lparr>created_clientMutationId = None, created_pullRequest =
          \<lparr>id' = ''5003'', baseRefName = ''main'', body = ''B'', headRefName = ''feature'',
           number = 502, priv_repository = ''1000'', title = ''T'',
           url = ''https://github.com/pytorch/pytorch/pull/502''\<rparr>\<rparr>)"
    unfolding s resolve_all_example
    by (simp add: example_create_def seed_repository_def Root_createPullRequest_def
      next_id_def next_pull_request_number_def str_int_def str_nat.simps digit_char_def dict_get_def Let_def)
  note inst = pullRequests_order_and_growth
    [where stored = seed_repository and qs = example_calls and s = ?s and self = seed_repository
       and q = ?q]
  from inst h3
  have a: "Repository_pullRequests ?s seed_repository
        = Inr \<lparr>nodes = filter (\<lambda>pr. priv_repository pr = id' seed_repository) (map snd (pull_requests ?s))\<rparr>"
    by blast
  from inst h1 h2
  have a': "Repository_pullRequests ?s seed_repository
        = Inr \<lparr>nodes = filter (\<lambda>pr. priv_repository pr = id' seed_repository) (map snd (pull_requests ?s))\<rparr>"
    by blast
  from inst
  have b: "case fst (resolve ?s ?q) of
      Create_response (Inr p) \<Rightarrow>
        Repository_pullRequests (snd (resolve ?s ?q)) seed_repository
          = Inr \<lparr>nodes = map snd (pull_requests ?s) @ [created_pullRequest p]\<rparr>
    | _ \<Rightarrow>
        (\<exists>after. Repository_pullRequests (snd (resolve ?s ?q)) seed_repository
                    = Inr \<lparr>nodes = after\<rparr> \<and>
                 length after = length (pull_requests ?s))"
    by blast
  from b have b': "Repository_pullRequests (snd (resolve ?s ?q)) seed_repository
          = Inr \<lparr>nodes = map snd (pull_requests ?s) @
               [\<lparr>id' = ''5003'', baseRefName = ''main'', body = ''B'', headRefName = ''feature'',
           number = 502, priv_repository = ''1000'', title = ''T'',
           url = ''https://github.com/pytorch/pytorch/pull/502''\<rparr>]\<rparr>"
    unfolding r by simp
  have ps: "map snd (pull_requests ?s) =
        [\<lparr>id' = ''5000'', baseRefName = ''main'', body = ''B'', headRefName = ''feature'',
           number = 500, priv_repository = ''1000'', title = ''T2'',
           url = ''https://github.com/pytorch/pytorch/pull/500''\<rparr>,
         \<lparr>id' = ''5002'', baseRefName = ''main'', body = ''B'', headRefName = ''feature'',
           number = 501, priv_repository = ''1000'', title = ''T'',
           url = ''https://github.com/pytorch/pytorch/pull/501''\<rparr>]"
    by (simp add: s resolve_all_example)
  have sid: "id' seed_repository = ''1000''"
    by (simp add: seed_repository_def)
  show ?thesis
    unfolding a b' ps sid by simp
qed

end
